theory Spec2Isabelle
  imports Main
begin

section \<open>JavaScript values and errors\<close>

text \<open>
  A thrown JavaScript error is kept as its \<open>name\<close> and \<open>message\<close>.  String
  concatenation with an error (\<open>"..." + e\<close>) calls \<open>Error.prototype.toString\<close>,
  which is \<open>error_toString\<close>.
\<close>

datatype js_error = JsError (err_name: string) (err_message: string)

definition error_toString :: "js_error \<Rightarrow> string" where
  "error_toString e =
     (if err_name e = [] then err_message e
      else if err_message e = [] then err_name e
      else err_name e @ '': '' @ err_message e)"

text \<open>
  The values a Mustache view can hold, as far as the plugin builds them: absent,
  strings, and objects with named properties in declaration order.
\<close>

datatype jsval = JUndefined | JString string | JObject "(string \<times> jsval) list"

section \<open>IoEvent and ReactorResult\<close>

text \<open>
  \<open>IoEvent\<close> (constructor arguments \<open>ioEventType, fullPath, optionalFsStats,
  optionalExtraInfo\<close>) and \<open>ReactorResult\<close> (constructor arguments \<open>success,
  pluginId, reactorId, ioEvent, message, error\<close>).  An omitted \<open>error\<close> argument is
  \<open>undefined\<close>, here \<open>None\<close>.  The plugin never copies or changes the event it is
  given: the object handed to \<open>react\<close> is the one stored in the result, and the model
  identifies the object with its value.
\<close>

record IoEvent =
  eventType :: string
  fullPath :: string
  optionalFsStats :: jsval
  optionalExtraInfo :: jsval

record ReactorResult =
  success :: bool
  pluginId :: string
  reactorId :: string
  ioEvent :: IoEvent
  message :: string
  error :: "js_error option"

definition new_ReactorResult ::
  "bool \<Rightarrow> string \<Rightarrow> string \<Rightarrow> IoEvent \<Rightarrow> string \<Rightarrow> js_error option \<Rightarrow> ReactorResult" where
  "new_ReactorResult s pid rid ev msg err =
     \<lparr>success = s, pluginId = pid, reactorId = rid, ioEvent = ev, message = msg, error = err\<rparr>"

section \<open>Derived path fields of an event\<close>

text \<open>
  Modelled from the spec: the \<open>IoEvent\<close> class of the current plugin comes from the
  package \<open>io-event-reactor-plugin-support\<close>, which is not among the sources.  The spec
  gives its derived fields: \<open>parentPath\<close> (directory containing \<open>fullPath\<close>),
  \<open>filename\<close> (basename) and \<open>parentName\<close> (basename of \<open>parentPath\<close>); the earlier
  revision of \<open>react\<close> computes the first two with \<open>path.dirname\<close> and
  \<open>path.basename\<close>.  Both are the POSIX functions of Node on \<open>/\<close>-separated paths.
  \<open>dirname\<close> looks, from the end and not before index 1, for the last \<open>/\<close> that
  follows the last component, and returns what stands before it; with no such \<open>/\<close> it
  returns \<open>/\<close> for a rooted path and \<open>.\<close> otherwise, and \<open>//\<close> when the path is rooted
  and that \<open>/\<close> is at index 1.
\<close>

definition strip_trailing_slashes :: "string \<Rightarrow> string" where
  "strip_trailing_slashes p = rev (dropWhile (\<lambda>c. c = CHR ''/'') (rev p))"

definition basename :: "string \<Rightarrow> string" where
  "basename p = rev (takeWhile (\<lambda>c. c \<noteq> CHR ''/'') (rev (strip_trailing_slashes p)))"

definition dirname :: "string \<Rightarrow> string" where
  "dirname p =
     (case p of
        [] \<Rightarrow> ''.''
      | c # cs \<Rightarrow>
          (let r = dropWhile (\<lambda>x. x \<noteq> CHR ''/'') (dropWhile (\<lambda>x. x = CHR ''/'') (rev cs))
           in if r = [] then (if c = CHR ''/'' then ''/'' else ''.'')
              else if c = CHR ''/'' \<and> length r = 1 then ''//''
              else c # rev (tl r)))"

definition parentPath :: "IoEvent \<Rightarrow> string" where
  "parentPath ev = dirname (fullPath ev)"

definition filename :: "IoEvent \<Rightarrow> string" where
  "filename ev = basename (fullPath ev)"

definition parentName :: "IoEvent \<Rightarrow> string" where
  "parentName ev = basename (parentPath ev)"

text \<open>
  Modelled from the spec: the properties an \<open>IoEvent\<close> offers to a template
  (\<open>eventType\<close>, \<open>fullPath\<close>, \<open>parentPath\<close>, \<open>parentName\<close>, \<open>filename\<close>,
  \<open>optionalFsStats\<close>, \<open>optionalExtraInfo\<close>).
\<close>

definition ioEvent_properties :: "IoEvent \<Rightarrow> jsval" where
  "ioEvent_properties ev = JObject
     [(''eventType'', JString (eventType ev)),
      (''fullPath'', JString (fullPath ev)),
      (''parentPath'', JString (parentPath ev)),
      (''parentName'', JString (parentName ev)),
      (''filename'', JString (filename ev)),
      (''optionalFsStats'', optionalFsStats ev),
      (''optionalExtraInfo'', optionalExtraInfo ev)]"

text \<open>
  The view \<open>react\<close> passes to \<open>Mustache.render\<close>: the object literal
  \<open>{'ioEvent': ioEvent}\<close>.
\<close>

definition template_view :: "IoEvent \<Rightarrow> jsval" where
  "template_view ev = JObject [(''ioEvent'', ioEvent_properties ev)]"

definition top_level_keys :: "jsval \<Rightarrow> string list" where
  "top_level_keys v = (case v of JObject ps \<Rightarrow> map fst ps | _ \<Rightarrow> [])"

section \<open>The template engine\<close>

text \<open>
  \<open>Mustache.render(template, view)\<close> belongs to the external package \<open>mustache\<close>;
  \<open>react\<close> takes the renderer as a parameter.  For concrete templates the fragment of
  Mustache built from literal text and variable tags is modelled here: \<open>{{name}}\<close>
  (HTML-escaped), \<open>{{{name}}}\<close> and \<open>{{&name}}\<close> (unescaped), dotted names, a
  missing name rendering as the empty string, and \<open>Error("Unclosed tag at <pos>")\<close>
  for a tag that is never closed.  Section, partial, comment and delimiter tags are
  outside the fragment and are answered with an error of their own.  Properties of
  strings (such as \<open>length\<close>) are not modelled.
\<close>

datatype token = Text string | Name string | Unescaped string

datatype scan_mode = InText | AfterOpen | InName bool | InCurly

definition is_space :: "char \<Rightarrow> bool" where
  "is_space c = (c \<in> set [CHR '' '', CHR 0x09, CHR 0x0A, CHR 0x0B, CHR 0x0C, CHR 0x0D])"

definition tag_value :: "string \<Rightarrow> string" where
  "tag_value acc = rev (dropWhile is_space acc)"

definition text_tokens :: "string \<Rightarrow> token list" where
  "text_tokens acc = (if acc = [] then [] else [Text (rev acc)])"

definition var_token :: "bool \<Rightarrow> string \<Rightarrow> token" where
  "var_token esc acc = (if esc then Name (tag_value acc) else Unescaped (tag_value acc))"

fun string_of_nat :: "nat \<Rightarrow> string" where
  "string_of_nat n =
     (if n < 10 then [''0123456789'' ! n]
      else string_of_nat (n div 10) @ [''0123456789'' ! (n mod 10)])"

definition unclosed_tag :: "nat \<Rightarrow> js_error" where
  "unclosed_tag pos = JsError ''Error'' (''Unclosed tag at '' @ string_of_nat pos)"

definition outside_fragment :: js_error where
  "outside_fragment = JsError ''Error'' ''tag kind outside the modelled fragment''"

text \<open>
  The scanner of \<open>parseTemplate\<close>.  \<open>n\<close> is the length of the template (the scanner
  position reported for an unclosed tag), \<open>acc\<close> the characters of the current text or
  tag value, latest first.
\<close>

fun scan :: "nat \<Rightarrow> scan_mode \<Rightarrow> string \<Rightarrow> string \<Rightarrow> js_error + token list" where
  "scan n InText acc [] = Inr (text_tokens acc)"
| "scan n InText acc [c] = Inr (text_tokens (c # acc))"
| "scan n InText acc (c # d # cs) =
     (if c = CHR ''{'' \<and> d = CHR ''{''
      then map_sum id (\<lambda>ts. text_tokens acc @ ts) (scan n AfterOpen [] cs)
      else scan n InText (c # acc) (d # cs))"
| "scan n AfterOpen acc [] = Inl (unclosed_tag n)"
| "scan n AfterOpen acc [c] = Inl (unclosed_tag n)"
| "scan n AfterOpen acc (c # d # cs) =
     (if is_space c then scan n AfterOpen acc (d # cs)
      else if c = CHR ''{'' then scan n InCurly [] (d # cs)
      else if c = CHR ''&'' then scan n (InName False) [] (d # cs)
      else if c \<in> set ''#^/>=!'' then Inl outside_fragment
      else if c = CHR ''}'' \<and> d = CHR ''}''
      then map_sum id (\<lambda>ts. Name [] # ts) (scan n InText [] cs)
      else scan n (InName True) [c] (d # cs))"
| "scan n (InName esc) acc [] = Inl (unclosed_tag n)"
| "scan n (InName esc) acc [c] = Inl (unclosed_tag n)"
| "scan n (InName esc) acc (c # d # cs) =
     (if c = CHR ''}'' \<and> d = CHR ''}''
      then map_sum id (\<lambda>ts. var_token esc acc # ts) (scan n InText [] cs)
      else if acc = [] \<and> is_space c then scan n (InName esc) acc (d # cs)
      else scan n (InName esc) (c # acc) (d # cs))"
| "scan n InCurly acc (c # d # e # cs) =
     (if c = CHR ''}'' \<and> d = CHR ''}'' \<and> e = CHR ''}''
      then map_sum id (\<lambda>ts. Unescaped (tag_value acc) # ts) (scan n InText [] cs)
      else if acc = [] \<and> is_space c then scan n InCurly acc (d # e # cs)
      else scan n InCurly (c # acc) (d # e # cs))"
| "scan n InCurly acc cs = Inl (unclosed_tag n)"

text \<open>\<open>Context.lookup\<close> on a view with no parent context.\<close>

fun split_dots :: "string \<Rightarrow> string list" where
  "split_dots [] = [[]]"
| "split_dots (c # cs) =
     (if c = CHR ''.'' then [] # split_dots cs
      else (case split_dots cs of [] \<Rightarrow> [[c]] | x # xs \<Rightarrow> (c # x) # xs))"

definition get_property :: "jsval \<Rightarrow> string \<Rightarrow> jsval" where
  "get_property v k =
     (case v of
        JObject ps \<Rightarrow> (case map_of ps k of Some x \<Rightarrow> x | None \<Rightarrow> JUndefined)
      | _ \<Rightarrow> JUndefined)"

definition lookup :: "jsval \<Rightarrow> string \<Rightarrow> jsval" where
  "lookup view name =
     (if name = ''.'' then view
      else if CHR ''.'' \<in> set name \<and> hd name \<noteq> CHR ''.''
      then foldl get_property view (split_dots name)
      else get_property view name)"

definition js_to_string :: "jsval \<Rightarrow> string" where
  "js_to_string v =
     (case v of JUndefined \<Rightarrow> [] | JString s \<Rightarrow> s | JObject ps \<Rightarrow> ''[object Object]'')"

definition escape_char :: "char \<Rightarrow> string" where
  "escape_char c =
     (if c = CHR ''&'' then ''&amp;''
      else if c = CHR ''<'' then ''&lt;''
      else if c = CHR ''>'' then ''&gt;''
      else if c = CHR 0x22 then ''&quot;''
      else if c = CHR 0x27 then ''&#39;''
      else if c = CHR ''/'' then ''&#x2F;''
      else if c = CHR 0x60 then ''&#x60;''
      else if c = CHR ''='' then ''&#x3D;''
      else [c])"

definition escapeHtml :: "string \<Rightarrow> string" where
  "escapeHtml s = concat (map escape_char s)"

definition render_token :: "jsval \<Rightarrow> token \<Rightarrow> string" where
  "render_token view t =
     (case t of
        Text s \<Rightarrow> s
      | Name n \<Rightarrow> escapeHtml (js_to_string (lookup view n))
      | Unescaped n \<Rightarrow> js_to_string (lookup view n))"

definition mustache_render :: "string \<Rightarrow> jsval \<Rightarrow> js_error + string" where
  "mustache_render template view =
     (case scan (length template) InText [] template of
        Inl e \<Rightarrow> Inl e
      | Inr ts \<Rightarrow> Inr (concat (map (render_token view) ts)))"

section \<open>The plugin object\<close>

text \<open>
  The fields the constructor sets on \<open>this\<close>.  A field never assigned is \<open>undefined\<close>,
  here \<open>None\<close>.  \<open>'p\<close> is the type of \<open>StatefulProcessCommandProxy\<close> instances, an
  external collaborator.  A command generator returns an array of command strings, or
  nothing (\<open>undefined\<close>/\<open>null\<close>, here \<open>None\<close>), or throws.
\<close>

type_synonym render_fn = "string \<Rightarrow> jsval \<Rightarrow> js_error + string"

type_synonym generator_fn = "IoEvent \<Rightarrow> js_error + string list option"

record 'p plugin =
  self_pluginId :: string
  self_reactorId :: string
  self_statefulProcessCommandProxy :: "'p option"
  self_commandGenerator :: "generator_fn option"
  self_commandTemplates :: "string list option"

record ('c, 'p) proxy_config =
  proxy_config :: "'c option"
  proxy_instance :: "'p option"

record ('c, 'p) pluginConfig =
  statefulProcessCommandProxy :: "('c, 'p) proxy_config option"
  commandGenerator :: "generator_fn option"
  commandTemplates :: "string list option"

definition getId :: "'p plugin \<Rightarrow> string" where
  "getId self = self_pluginId self"

definition class_name :: string where
  "class_name = ''ShellExecReactorPlugin''"

text \<open>
  \<open>this.__proto__.constructor.name + '[' + this._reactorId + '][' + this.getId() + ']'\<close>:
  the origin of every log line and the prefix of every construction error message.
\<close>

definition log_origin :: "'p plugin \<Rightarrow> string" where
  "log_origin self = class_name @ ''['' @ self_reactorId self @ '']['' @ getId self @ '']''"

section \<open>The constructor\<close>

text \<open>
  What the constructor does to its owner, in order: calls of the log function
  (\<open>_log\<close>, with severity, origin and message), of the error callback (\<open>_onError\<close>),
  of the initialized callback, and the \<open>fs.stat\<close> requests whose callbacks pre-test the
  generator and the templates after the constructor has returned.  The callbacks the
  owner supplies are taken to return normally.
\<close>

datatype pretest = PretestGenerator | PretestTemplates

datatype ctor_effect =
    LogCall string string string
  | ErrorCallback string js_error
  | InitializedCallback string
  | FsStat pretest

definition log_and_report :: "'p plugin \<Rightarrow> string \<Rightarrow> js_error \<Rightarrow> ctor_effect list" where
  "log_and_report self what e =
     (let errMsg = log_origin self @ what @ error_toString e
      in [LogCall ''error'' (log_origin self) errMsg, ErrorCallback errMsg e])"

definition undefined_property :: "string \<Rightarrow> js_error" where
  "undefined_property k =
     JsError ''TypeError'' (''Cannot read properties of undefined (reading '' @ [CHR 0x27] @ k @ [CHR 0x27] @ '')'')"

definition missing_proxy_error :: js_error where
  "missing_proxy_error =
     JsError ''Error''
       (''pluginConfig.statefulProcessCommandProxy must contain either 'instance' or 'config'' @ [CHR 0x27])"

text \<open>
  Binding the executor.  \<open>new_proxy\<close> is the constructor of
  \<open>StatefulProcessCommandProxy\<close>, which may throw.  The result is \<open>Inl e\<close> when \<open>e\<close> is
  thrown to the outer \<open>catch\<close> of the constructor: by the explicit \<open>throw\<close>, or by
  reading \<open>.config\<close> of an absent \<open>pluginConfig.statefulProcessCommandProxy\<close>.
\<close>

definition bind_executor ::
  "('c \<Rightarrow> js_error + 'p) \<Rightarrow> 'p plugin \<Rightarrow> ('c, 'p) pluginConfig
     \<Rightarrow> js_error + ('p plugin \<times> ctor_effect list)" where
  "bind_executor new_proxy self cfg =
     (case statefulProcessCommandProxy cfg of
        None \<Rightarrow> Inl (undefined_property ''config'')
      | Some pc \<Rightarrow>
          (case proxy_config pc of
             Some c \<Rightarrow>
               (case new_proxy c of
                  Inr p \<Rightarrow> Inr (self\<lparr>self_statefulProcessCommandProxy := Some p\<rparr>, [])
                | Inl e \<Rightarrow>
                    Inr (self, log_and_report self '' error constructing StatefulProcessCommandProxy: '' e))
           | None \<Rightarrow>
               (case proxy_instance pc of
                  Some i \<Rightarrow> Inr (self\<lparr>self_statefulProcessCommandProxy := Some i\<rparr>, [])
                | None \<Rightarrow> Inl missing_proxy_error)))"

definition handle_commandGenerator ::
  "'p plugin \<Rightarrow> ('c, 'p) pluginConfig \<Rightarrow> 'p plugin \<times> ctor_effect list" where
  "handle_commandGenerator self cfg =
     (case commandGenerator cfg of
        Some g \<Rightarrow> (self\<lparr>self_commandGenerator := Some g\<rparr>, [FsStat PretestGenerator])
      | None \<Rightarrow> (self, []))"

definition handle_commandTemplates ::
  "'p plugin \<Rightarrow> ('c, 'p) pluginConfig \<Rightarrow> 'p plugin \<times> ctor_effect list" where
  "handle_commandTemplates self cfg =
     (case commandTemplates cfg of
        Some ts \<Rightarrow>
          (self\<lparr>self_commandTemplates := Some ts\<rparr>,
           [FsStat PretestTemplates, InitializedCallback (getId self)])
      | None \<Rightarrow> (self, []))"

text \<open>
  The outcome of \<open>new ShellExecReactorPlugin(...)\<close>: the object, what the owner
  observed, and the error that left the constructor as a throw, if any.
\<close>

record 'p constructed =
  plugin :: "'p plugin"
  effects :: "ctor_effect list"
  escaped :: "js_error option"

definition new_ShellExecReactorPlugin ::
  "('c \<Rightarrow> js_error + 'p) \<Rightarrow> string \<Rightarrow> string \<Rightarrow> ('c, 'p) pluginConfig \<Rightarrow> 'p constructed" where
  "new_ShellExecReactorPlugin new_proxy pid rid cfg =
     (let self0 = \<lparr>self_pluginId = pid, self_reactorId = rid,
                   self_statefulProcessCommandProxy = None,
                   self_commandGenerator = None, self_commandTemplates = None\<rparr>
      in case bind_executor new_proxy self0 cfg of
           Inl e \<Rightarrow>
             \<lparr>plugin = self0, effects = log_and_report self0 '' unexpected error: '' e,
              escaped = None\<rparr>
         | Inr (self1, effs1) \<Rightarrow>
             (let (self2, effs2) = handle_commandGenerator self1 cfg;
                  (self3, effs3) = handle_commandTemplates self2 cfg
              in \<lparr>plugin = self3, effects = effs1 @ effs2 @ effs3, escaped = None\<rparr>))"

definition initialized_calls :: "ctor_effect list \<Rightarrow> string list" where
  "initialized_calls effs = concat (map (\<lambda>e. case e of InitializedCallback i \<Rightarrow> [i] | _ \<Rightarrow> []) effs)"

definition error_callbacks :: "ctor_effect list \<Rightarrow> (string \<times> js_error) list" where
  "error_callbacks effs = concat (map (\<lambda>e. case e of ErrorCallback m x \<Rightarrow> [(m, x)] | _ \<Rightarrow> []) effs)"

section \<open>react\<close>

text \<open>
  One result of \<open>executeCommands\<close>, and what \<open>react\<close> does, in order: log lines,
  batches handed to \<open>executeCommands\<close>, and calls of the promise's \<open>resolve\<close> and
  \<open>reject\<close>.  A rejection carries a \<open>ReactorResult\<close>, or the raw error when the
  function given to \<open>new Promise\<close> throws (the Promise constructor turns the throw into
  a rejection, so \<open>react\<close> itself returns the promise).
\<close>

record cmd_result =
  command :: string
  stdout :: string
  stderr :: string

datatype exec_outcome =
    Resolves "cmd_result list"
  | Rejects js_error
  | Pending
  | Throws js_error

datatype reason = Result ReactorResult | Raw js_error

datatype react_effect =
    Log string string string
  | ExecuteCommands "string list"
  | Resolve ReactorResult
  | Reject reason

datatype settlement = Fulfilled ReactorResult | Rejected reason

text \<open>
  A promise settles at the first call of \<open>resolve\<close> or \<open>reject\<close>; later calls have
  no effect.  \<open>None\<close> is a promise left pending.
\<close>

fun promise_outcome :: "react_effect list \<Rightarrow> settlement option" where
  "promise_outcome [] = None"
| "promise_outcome (Resolve r # es) = Some (Fulfilled r)"
| "promise_outcome (Reject x # es) = Some (Rejected x)"
| "promise_outcome (e # es) = promise_outcome es"

definition submitted :: "react_effect list \<Rightarrow> string list list" where
  "submitted effs = concat (map (\<lambda>e. case e of ExecuteCommands cs \<Rightarrow> [cs] | _ \<Rightarrow> []) effs)"

definition log_severities :: "react_effect list \<Rightarrow> string list" where
  "log_severities effs = concat (map (\<lambda>e. case e of Log sev origin msg \<Rightarrow> [sev] | _ \<Rightarrow> []) effs)"

text \<open>
  Step 1, the loop over the templates.  It returns \<open>commandsToExec\<close> and the \<open>reject\<close>
  calls made on the way.  The \<open>catch\<close> block calls \<open>reject\<close> and falls through to the
  next template.
\<close>

fun collect_templates ::
  "render_fn \<Rightarrow> 'p plugin \<Rightarrow> IoEvent \<Rightarrow> string list \<Rightarrow> string list
     \<Rightarrow> string list \<times> react_effect list" where
  "collect_templates render self ev [] commandsToExec = (commandsToExec, [])"
| "collect_templates render self ev (template # ts) commandsToExec =
     (case render template (template_view ev) of
        Inr commandToExec \<Rightarrow>
          collect_templates render self ev ts
            (if commandToExec \<noteq> [] then commandsToExec @ [commandToExec] else commandsToExec)
      | Inl e \<Rightarrow>
          (let (cmds, effs) = collect_templates render self ev ts commandsToExec
           in (cmds,
               Reject (Result (new_ReactorResult False (getId self) (self_reactorId self) ev
                 (''Error generating command from mustache template: '' @ template @ '' ''
                    @ error_toString e) (Some e))) # effs)))"

text \<open>Step 2, the generator.  Its \<open>catch\<close> block calls \<open>reject\<close> and falls through too.\<close>

definition collect_generated ::
  "'p plugin \<Rightarrow> IoEvent \<Rightarrow> string list \<Rightarrow> string list \<times> react_effect list" where
  "collect_generated self ev commandsToExec =
     (case self_commandGenerator self of
        None \<Rightarrow> (commandsToExec, [])
      | Some g \<Rightarrow>
          (case g ev of
             Inr generatedCmds \<Rightarrow>
               (case generatedCmds of
                  Some (c # cs) \<Rightarrow> (commandsToExec @ c # cs, [])
                | _ \<Rightarrow> (commandsToExec, []))
           | Inl e \<Rightarrow>
               (commandsToExec,
                [Reject (Result (new_ReactorResult False (getId self) (self_reactorId self) ev
                   (''Error generating command from command generator function: ''
                      @ error_toString e) (Some e)))])))"

text \<open>
  Step 3, the submission.  \<open>executeCommands p cmds\<close> is what the call
  \<open>p.executeCommands(cmds)\<close> of the external executor does: it returns a promise that
  resolves with the array of results, one that rejects, one that never settles, or it
  throws at the call.  \<open>resolve\<close> and \<open>reject\<close> are called from the \<open>then\<close> and \<open>catch\<close>
  callbacks only, so a promise that never settles leaves no call; a throw at the call
  happens inside the function given to \<open>new Promise\<close> and is a raw rejection, as is the
  \<open>TypeError\<close> of calling \<open>executeCommands\<close> on an unassigned
  \<open>_statefulProcessCommandProxy\<close>.
\<close>

definition exec_all ::
  "('p \<Rightarrow> string list \<Rightarrow> exec_outcome) \<Rightarrow> 'p plugin \<Rightarrow> IoEvent \<Rightarrow> string list
     \<Rightarrow> react_effect list" where
  "exec_all executeCommands self ev commandsToExec =
     (case self_statefulProcessCommandProxy self of
        None \<Rightarrow> [Reject (Raw (undefined_property ''executeCommands''))]
      | Some p \<Rightarrow>
          ExecuteCommands commandsToExec #
          (case executeCommands p commandsToExec of
             Resolves cmdResultsArray \<Rightarrow>
               map (\<lambda>result. Log ''info'' (log_origin self)
                      (''CmdResult: cmd: '' @ command result @ '' stdout:'' @ stdout result
                         @ '' stderr:'' @ stderr result)) cmdResultsArray
               @ [Resolve (new_ReactorResult True (getId self) (self_reactorId self) ev
                    ''Executed commands successfully'' None)]
           | Rejects err \<Rightarrow>
               [Reject (Result (new_ReactorResult False (getId self) (self_reactorId self) ev
                  (''Error executing commands: '' @ error_toString err) (Some err)))]
           | Pending \<Rightarrow> []
           | Throws e \<Rightarrow> [Reject (Raw e)]))"

definition react ::
  "render_fn \<Rightarrow> ('p \<Rightarrow> string list \<Rightarrow> exec_outcome) \<Rightarrow> 'p plugin \<Rightarrow> IoEvent
     \<Rightarrow> react_effect list" where
  "react render executeCommands self ev =
     (let (cmds1, effs1) =
            (case self_commandTemplates self of
               Some (t # ts) \<Rightarrow> collect_templates render self ev (t # ts) []
             | _ \<Rightarrow> ([], []));
          (cmds2, effs2) = collect_generated self ev cmds1
      in Log ''info'' (log_origin self)
           (''REACT['' @ getId self @ '']() invoked: '' @ eventType ev @ '' for: '' @ fullPath ev)
         # effs1 @ effs2 @ exec_all executeCommands self ev cmds2)"

section \<open>What react collects, stated directly\<close>

text \<open>
  The commands and the \<open>reject\<close> calls of the two collection steps as functions of the
  configuration, against which the loop is proved below.
\<close>

definition templates_of :: "'p plugin \<Rightarrow> string list" where
  "templates_of self = (case self_commandTemplates self of None \<Rightarrow> [] | Some ts \<Rightarrow> ts)"

definition rendered_cmds :: "render_fn \<Rightarrow> IoEvent \<Rightarrow> string list \<Rightarrow> string list" where
  "rendered_cmds render ev ts =
     concat (map (\<lambda>t. case render t (template_view ev) of
                         Inr c \<Rightarrow> (if c \<noteq> [] then [c] else [])
                       | Inl e \<Rightarrow> []) ts)"

definition render_failure :: "'p plugin \<Rightarrow> IoEvent \<Rightarrow> string \<Rightarrow> js_error \<Rightarrow> ReactorResult" where
  "render_failure self ev template e =
     new_ReactorResult False (getId self) (self_reactorId self) ev
       (''Error generating command from mustache template: '' @ template @ '' ''
          @ error_toString e) (Some e)"

definition render_rejects :: "render_fn \<Rightarrow> 'p plugin \<Rightarrow> IoEvent \<Rightarrow> string list \<Rightarrow> react_effect list" where
  "render_rejects render self ev ts =
     concat (map (\<lambda>t. case render t (template_view ev) of
                         Inr c \<Rightarrow> []
                       | Inl e \<Rightarrow> [Reject (Result (render_failure self ev t e))]) ts)"

definition generated_cmds :: "'p plugin \<Rightarrow> IoEvent \<Rightarrow> string list" where
  "generated_cmds self ev =
     (case self_commandGenerator self of
        None \<Rightarrow> []
      | Some g \<Rightarrow> (case g ev of Inr (Some cs) \<Rightarrow> cs | _ \<Rightarrow> []))"

definition generation_failure :: "'p plugin \<Rightarrow> IoEvent \<Rightarrow> js_error \<Rightarrow> ReactorResult" where
  "generation_failure self ev e =
     new_ReactorResult False (getId self) (self_reactorId self) ev
       (''Error generating command from command generator function: '' @ error_toString e)
       (Some e)"

definition generator_rejects :: "'p plugin \<Rightarrow> IoEvent \<Rightarrow> react_effect list" where
  "generator_rejects self ev =
     (case self_commandGenerator self of
        None \<Rightarrow> []
      | Some g \<Rightarrow> (case g ev of Inr cs \<Rightarrow> [] | Inl e \<Rightarrow> [Reject (Result (generation_failure self ev e))]))"


definition executed_ok :: "'p plugin \<Rightarrow> IoEvent \<Rightarrow> ReactorResult" where
  "executed_ok self ev =
     new_ReactorResult True (getId self) (self_reactorId self) ev
       ''Executed commands successfully'' None"

section \<open>Concrete events, configurations and collaborators\<close>

definition ex_event :: IoEvent where
  "ex_event = \<lparr>eventType = ''add'', fullPath = ''/a/b/c.txt'',
               optionalFsStats = JUndefined, optionalExtraInfo = JUndefined\<rparr>"

text \<open>An executor that accepts every batch and reports each command with empty output.\<close>

definition accept_all :: "nat \<Rightarrow> string list \<Rightarrow> exec_outcome" where
  "accept_all p cmds = Resolves (map (\<lambda>c. \<lparr>command = c, stdout = [], stderr = []\<rparr>) cmds)"

definition gen_AB :: generator_fn where
  "gen_AB ev = Inr (Some [''cmdA'', ''cmdB''])"

definition gen_nothing :: generator_fn where
  "gen_nothing ev = Inr None"

definition gen_throws :: generator_fn where
  "gen_throws ev = Inl (JsError ''Error'' ''boom'')"

definition ex_plugin :: "string list option \<Rightarrow> generator_fn option \<Rightarrow> nat plugin" where
  "ex_plugin ts g =
     \<lparr>self_pluginId = ''shellExec1'', self_reactorId = ''reactor1'',
      self_statefulProcessCommandProxy = Some 0,
      self_commandGenerator = g, self_commandTemplates = ts\<rparr>"

definition new_proxy_ok :: "unit \<Rightarrow> js_error + nat" where
  "new_proxy_ok c = Inr 7"

definition ex_config ::
  "unit option \<Rightarrow> nat option \<Rightarrow> generator_fn option \<Rightarrow> string list option \<Rightarrow> (unit, nat) pluginConfig" where
  "ex_config c i g ts =
     \<lparr>statefulProcessCommandProxy = Some \<lparr>proxy_config = c, proxy_instance = i\<rparr>,
      commandGenerator = g, commandTemplates = ts\<rparr>"

section \<open>Unfolding bundles\<close>

lemmas ex_defs = ex_event_def accept_all_def gen_AB_def gen_nothing_def gen_throws_def
  ex_plugin_def new_proxy_ok_def ex_config_def

lemmas view_defs = template_view_def ioEvent_properties_def filename_def basename_def
  strip_trailing_slashes_def parentPath_def parentName_def dirname_def

lemmas mustache_defs = mustache_render_def text_tokens_def var_token_def tag_value_def
  is_space_def render_token_def lookup_def get_property_def js_to_string_def escapeHtml_def
  escape_char_def unclosed_tag_def outside_fragment_def

lemmas react_defs = react_def collect_generated_def exec_all_def new_ReactorResult_def
  getId_def log_origin_def class_name_def error_toString_def submitted_def log_severities_def
  undefined_property_def

lemmas ctor_defs = new_ShellExecReactorPlugin_def bind_executor_def handle_commandGenerator_def
  handle_commandTemplates_def log_and_report_def missing_proxy_error_def initialized_calls_def
  error_callbacks_def

section \<open>The collection loop against its direct statement\<close>

lemma collect_templates_eq:
  "collect_templates render self ev ts cmds =
     (cmds @ rendered_cmds render ev ts, render_rejects render self ev ts)"
  by (induction ts arbitrary: cmds)
     (auto simp: rendered_cmds_def render_rejects_def render_failure_def split: sum.splits)

lemma collect_generated_eq:
  "collect_generated self ev cmds = (cmds @ generated_cmds self ev, generator_rejects self ev)"
  by (auto simp: collect_generated_def generated_cmds_def generator_rejects_def
        generation_failure_def split: option.splits sum.splits list.splits)


lemma react_eq:
  "react render executeCommands self ev =
     Log ''info'' (log_origin self)
       (''REACT['' @ getId self @ '']() invoked: '' @ eventType ev @ '' for: '' @ fullPath ev)
     # render_rejects render self ev (templates_of self)
     @ generator_rejects self ev
     @ exec_all executeCommands self ev
         (rendered_cmds render ev (templates_of self) @ generated_cmds self ev)"
  by (simp add: react_def templates_of_def collect_templates_eq collect_generated_eq
        rendered_cmds_def render_rejects_def split: option.splits list.splits)


lemma submitted_append: "submitted (xs @ ys) = submitted xs @ submitted ys"
  by (simp add: submitted_def)

lemma submitted_Log: "submitted (Log a b c # es) = submitted es"
  by (simp add: submitted_def)

lemma submitted_render_rejects: "submitted (render_rejects render self ev ts) = []"
  by (induction ts) (auto simp: submitted_def render_rejects_def split: sum.splits)

lemma submitted_generator_rejects: "submitted (generator_rejects self ev) = []"
  by (auto simp: submitted_def generator_rejects_def split: option.splits sum.splits)

lemma submitted_logs: "submitted (map (\<lambda>r. Log (a r) (b r) (c r)) rs) = []"
  by (induction rs) (auto simp: submitted_def)

lemma submitted_exec_all:
  "self_statefulProcessCommandProxy self = Some p \<Longrightarrow>
   submitted (exec_all executeCommands self ev cmds) = [cmds]"
  by (simp add: exec_all_def submitted_def split: exec_outcome.splits)

lemma submitted_react:
  "self_statefulProcessCommandProxy self = Some p \<Longrightarrow>
   submitted (react render executeCommands self ev) =
     [rendered_cmds render ev (templates_of self) @ generated_cmds self ev]"
  by (simp add: react_eq submitted_Log submitted_append submitted_render_rejects
        submitted_generator_rejects submitted_exec_all)


lemma render_rejects_all_ok:
  "\<forall>t\<in>set ts. \<exists>c. render t (template_view ev) = Inr c \<Longrightarrow> render_rejects render self ev ts = []"
  by (induction ts) (auto simp: render_rejects_def)

lemma render_rejects_append:
  "render_rejects render self ev (xs @ ys) =
     render_rejects render self ev xs @ render_rejects render self ev ys"
  by (simp add: render_rejects_def)

lemma promise_outcome_react:
  "promise_outcome (react render executeCommands self ev) =
     promise_outcome (render_rejects render self ev (templates_of self)
       @ generator_rejects self ev
       @ exec_all executeCommands self ev
           (rendered_cmds render ev (templates_of self) @ generated_cmds self ev))"
  by (simp add: react_eq)

section \<open>Render failures (C1, C10)\<close>

text \<open>
  C1.  Claim: whenever some configured template fails to render, \<open>react\<close> produces a
  failed result carrying that render error, submits no commands to the executor, and
  applies neither the remaining templates nor the generator.

  The code calls \<open>reject\<close> in the \<open>catch\<close> block of the loop and does not leave the
  loop.  With the templates \<open>echo {{\<close> (unclosed tag) and \<open>echo {{ioEvent.filename}}\<close>,
  the generator returning \<open>cmdA, cmdB\<close> and the event \<open>/a/b/c.txt\<close>: the promise is
  rejected with the render error of the first template, and the executor still receives
  the batch made of the second template's output and the generator's commands.
\<close>

theorem react_render_failure_still_submits:
  "promise_outcome (react mustache_render accept_all
        (ex_plugin (Some [''echo {{'', ''echo {{ioEvent.filename}}'']) (Some gen_AB)) ex_event)
     = Some (Rejected (Result (render_failure
         (ex_plugin (Some [''echo {{'', ''echo {{ioEvent.filename}}'']) (Some gen_AB)) ex_event
         ''echo {{'' (JsError ''Error'' ''Unclosed tag at 7''))))
   \<and> submitted (react mustache_render accept_all
        (ex_plugin (Some [''echo {{'', ''echo {{ioEvent.filename}}'']) (Some gen_AB)) ex_event)
     = [[''echo c.txt'', ''cmdA'', ''cmdB'']]"
  by (simp add: react_defs ex_defs view_defs mustache_defs render_failure_def)

text \<open>
  C10.  Every \<open>react\<close> call settles its promise at most once: the outcome is the first
  call of \<open>resolve\<close>/\<open>reject\<close>.  When the templates before \<open>t\<close> render and \<open>t\<close> fails
  with \<open>e\<close>, whatever the later templates do, the result seen by the caller is the
  failure for \<open>t\<close> carrying \<open>e\<close>; collection goes on, and a bound executor receives
  exactly one batch: the non-empty outputs of every template that rendered, then the
  generator's commands.
\<close>

theorem react_first_render_error_settles:
  assumes "self_commandTemplates self = Some (pre @ t # post)"
    and "\<forall>x\<in>set pre. \<exists>c. render x (template_view ev) = Inr c"
    and "render t (template_view ev) = Inl e"
  shows "promise_outcome (react render executeCommands self ev)
           = Some (Rejected (Result (render_failure self ev t e)))
         \<and> (\<forall>p. self_statefulProcessCommandProxy self = Some p \<longrightarrow>
              submitted (react render executeCommands self ev)
                = [rendered_cmds render ev (pre @ t # post) @ generated_cmds self ev])"
proof -
  have ts: "templates_of self = pre @ t # post"
    using assms(1) by (simp add: templates_of_def)
  have "render_rejects render self ev (pre @ t # post)
          = Reject (Result (render_failure self ev t e)) # render_rejects render self ev post"
    using assms(2,3) render_rejects_all_ok [of pre render ev self]
    by (simp add: render_rejects_append) (simp add: render_rejects_def)
  then have "promise_outcome (react render executeCommands self ev)
           = Some (Rejected (Result (render_failure self ev t e)))"
    by (simp add: promise_outcome_react ts)
  moreover have "\<forall>p. self_statefulProcessCommandProxy self = Some p \<longrightarrow>
              submitted (react render executeCommands self ev)
                = [rendered_cmds render ev (pre @ t # post) @ generated_cmds self ev]"
    using submitted_react [of self _ render executeCommands ev] by (simp add: ts)
  ultimately show ?thesis by simp
qed
theorem react_first_render_error_settles_witness:
  "promise_outcome (react mustache_render accept_all
        (ex_plugin (Some [''echo {{ioEvent.filename}}'', ''echo {{'', ''{{{oops'', ''ls''])
           (Some gen_AB)) ex_event)
     = Some (Rejected (Result (render_failure
         (ex_plugin (Some [''echo {{ioEvent.filename}}'', ''echo {{'', ''{{{oops'', ''ls''])
            (Some gen_AB)) ex_event
         ''echo {{'' (JsError ''Error'' ''Unclosed tag at 7''))))
   \<and> submitted (react mustache_render accept_all
        (ex_plugin (Some [''echo {{ioEvent.filename}}'', ''echo {{'', ''{{{oops'', ''ls''])
           (Some gen_AB)) ex_event)
     = [[''echo c.txt'', ''ls'', ''cmdA'', ''cmdB'']]"
  using react_first_render_error_settles
    [where self = "ex_plugin (Some [''echo {{ioEvent.filename}}'', ''echo {{'', ''{{{oops'', ''ls''])
                     (Some gen_AB)"
       and pre = "[''echo {{ioEvent.filename}}'']" and t = "''echo {{''"
       and post = "[''{{{oops'', ''ls'']" and render = mustache_render and ev = ex_event
       and e = "JsError ''Error'' ''Unclosed tag at 7''" and executeCommands = accept_all]
  by (simp add: ex_defs view_defs mustache_defs rendered_cmds_def generated_cmds_def)

section \<open>Settling with a result (C2)\<close>

text \<open>
  C2.  Claim: for every valid event, \<open>react(event)\<close> never throws synchronously and
  settles with exactly one result whose \<open>ioEvent\<close> is the input event, on the success
  and on the failure path.

  The docstring of \<open>react\<close> promises a \<open>ReactorResult\<close> on fulfilment and on rejection,
  and the three \<open>reject\<close> calls of \<open>react\<close> each wrap the error in one.  The call of
  \<open>executeCommands\<close> is not guarded.  The constructor catches its own error when
  \<open>pluginConfig.statefulProcessCommandProxy\<close> holds neither \<open>config\<close> nor \<open>instance\<close>,
  reports it, and returns a plugin whose \<open>_statefulProcessCommandProxy\<close> is unassigned.
  On the plugin so constructed, \<open>react\<close> on a valid event reaches \<open>executeCommands\<close> of
  \<open>undefined\<close>: nothing is submitted, and the promise is rejected with the raw
  \<open>TypeError\<close>, which is no \<open>ReactorResult\<close> and carries no \<open>ioEvent\<close>.
\<close>

theorem react_unbound_executor_rejects_raw:
  "self_statefulProcessCommandProxy
     (plugin (new_ShellExecReactorPlugin new_proxy_ok ''shellExec1'' ''reactor1''
        (ex_config None None None (Some [''echo hi''])))) = None
   \<and> submitted (react mustache_render accept_all
     (plugin (new_ShellExecReactorPlugin new_proxy_ok ''shellExec1'' ''reactor1''
        (ex_config None None None (Some [''echo hi''])))) ex_event) = []
   \<and> promise_outcome (react mustache_render accept_all
     (plugin (new_ShellExecReactorPlugin new_proxy_ok ''shellExec1'' ''reactor1''
        (ex_config None None None (Some [''echo hi''])))) ex_event)
   = Some (Rejected (Raw (undefined_property ''executeCommands'')))"
  by (simp add: react_defs ex_defs ctor_defs view_defs mustache_defs)

section \<open>Order of the batch (C3)\<close>

text \<open>
  C3.  Claim: when templates and generator all succeed, the batch handed to the
  executor is the rendered template outputs in configuration order followed by the
  generator's commands.

  \<open>react\<close> pushes a rendered output only \<open>if (commandToExec)\<close>.  The template
  \<open>{{ioEvent.optionalExtraInfo}}\<close> renders to the empty string on an event without extra
  info; with the generator returning \<open>cmdA, cmdB\<close> the batch is \<open>cmdA, cmdB\<close>, and the
  rendered output is not in it.
\<close>

theorem react_drops_empty_render:
  "mustache_render ''{{ioEvent.optionalExtraInfo}}'' (template_view ex_event) = Inr []
   \<and> gen_AB ex_event = Inr (Some [''cmdA'', ''cmdB''])
   \<and> submitted (react mustache_render accept_all
        (ex_plugin (Some [''{{ioEvent.optionalExtraInfo}}'']) (Some gen_AB)) ex_event)
     = [[''cmdA'', ''cmdB'']]"
  by (simp add: react_defs ex_defs view_defs mustache_defs)

text \<open>
  C3, amended.  When every template renders (to \<open>outs\<close>, in configuration order) and
  the generator returns \<open>gs\<close>, a bound executor receives exactly one batch: the
  non-empty members of \<open>outs\<close> in order, followed by \<open>gs\<close> in order.  One template
  rendering to \<open>cmdT\<close> and a generator returning \<open>cmdA, cmdB\<close> give \<open>cmdT, cmdA, cmdB\<close>.
\<close>

theorem react_batch_order:
  assumes "self_commandTemplates self = Some ts"
    and "map (\<lambda>t. render t (template_view ev)) ts = map Inr outs"
    and "self_commandGenerator self = Some g"
    and "g ev = Inr (Some gs)"
    and "self_statefulProcessCommandProxy self = Some p"
  shows "submitted (react render executeCommands self ev) = [filter (\<lambda>c. c \<noteq> []) outs @ gs]"
proof -
  have "rendered_cmds render ev ts = filter (\<lambda>c. c \<noteq> []) outs"
    using assms(2)
  proof (induction ts arbitrary: outs)
    case Nil
    then show ?case by (simp add: rendered_cmds_def)
  next
    case (Cons t ts)
    then obtain c cs where "outs = c # cs" by (cases outs) auto
    with Cons show ?case by (auto simp: rendered_cmds_def)
  qed
  moreover have "generated_cmds self ev = gs"
    using assms(3,4) by (simp add: generated_cmds_def)
  moreover have "templates_of self = ts"
    using assms(1) by (simp add: templates_of_def)
  ultimately show ?thesis
    using submitted_react [OF assms(5), of render executeCommands ev] by simp
qed
theorem react_batch_order_witness:
  "submitted (react mustache_render accept_all (ex_plugin (Some [''cmdT'']) (Some gen_AB)) ex_event)
     = [[''cmdT'', ''cmdA'', ''cmdB'']]"
  using react_batch_order
    [where self = "ex_plugin (Some [''cmdT'']) (Some gen_AB)" and ts = "[''cmdT'']"
       and render = mustache_render and ev = ex_event and outs = "[''cmdT'']" and g = gen_AB
       and gs = "[''cmdA'', ''cmdB'']" and p = 0 and executeCommands = accept_all]
  by (simp add: ex_defs mustache_defs)

section \<open>Generator failures (C4)\<close>

text \<open>
  C4.  Claim: whenever the generator throws, \<open>react\<close> produces a failed result carrying
  the generation error and submits no commands, even when all templates rendered.

  The \<open>catch\<close> block around the generator calls \<open>reject\<close> and falls through to the
  submission.  With the template \<open>cmdT\<close> and a generator that throws, the promise is
  rejected with the generation error and the executor still receives the batch \<open>cmdT\<close>.
\<close>

theorem react_generator_failure_still_submits:
  "promise_outcome (react mustache_render accept_all
        (ex_plugin (Some [''cmdT'']) (Some gen_throws)) ex_event)
     = Some (Rejected (Result (generation_failure
         (ex_plugin (Some [''cmdT'']) (Some gen_throws)) ex_event (JsError ''Error'' ''boom''))))
   \<and> submitted (react mustache_render accept_all
        (ex_plugin (Some [''cmdT'']) (Some gen_throws)) ex_event)
     = [[''cmdT'']]"
  by (simp add: react_defs ex_defs view_defs mustache_defs generation_failure_def)

section \<open>The key of the template view (C5)\<close>

text \<open>
  C5.  Claim: the renderer exposes the event under the single top-level key \<open>event\<close>,
  and a plugin configured only with the template \<open>echo {{event.filename}}\<close> submits
  exactly \<open>echo c.txt\<close> for the event \<open>/a/b/c.txt\<close>.

  The view is \<open>{'ioEvent': ioEvent}\<close>.  The name \<open>event.filename\<close> is not found in it
  and renders as the empty string, so the batch is not \<open>echo c.txt\<close>.
\<close>

theorem react_event_key_renders_empty:
  "top_level_keys (template_view ex_event) \<noteq> [''event'']
   \<and> fullPath ex_event = ''/a/b/c.txt''
   \<and> submitted (react mustache_render accept_all
        (ex_plugin (Some [''echo {{event.filename}}'']) None) ex_event) \<noteq> [[''echo c.txt'']]"
  by (simp add: react_defs ex_defs view_defs mustache_defs top_level_keys_def)

text \<open>
  C5, amended.  The single top-level key of the view is \<open>ioEvent\<close>; a plugin with a
  bound executor, no generator and the one template \<open>echo {{ioEvent.filename}}\<close>,
  reacting to an event whose \<open>fullPath\<close> is \<open>/a/b/c.txt\<close>, submits exactly the batch
  \<open>echo c.txt\<close>.
\<close>

theorem react_ioEvent_key_renders_filename:
  "top_level_keys (template_view ev) = [''ioEvent'']
   \<and> submitted (react mustache_render executeCommands
        (self\<lparr>self_commandTemplates := Some [''echo {{ioEvent.filename}}''],
              self_commandGenerator := None,
              self_statefulProcessCommandProxy := Some p\<rparr>)
        (ev\<lparr>fullPath := ''/a/b/c.txt''\<rparr>)) = [[''echo c.txt'']]"
  by (simp add: react_defs view_defs mustache_defs top_level_keys_def
        split: exec_outcome.splits)

section \<open>Construction (C6, C7, C8)\<close>

text \<open>
  C6.  Claim: constructing with neither \<open>commandTemplates\<close> nor \<open>commandGenerator\<close>
  surfaces a configuration error through the error callback, and the plugin cannot
  silently produce an empty successful batch without at least a warning log.

  The constructor checks the executor configuration and nothing about the command
  sources.  With an executor instance and no command source it makes no call at all
  (no log, no error callback, no initialized callback); \<open>react\<close> on the resulting plugin
  submits the empty batch, is fulfilled with a success, and logs at severity \<open>info\<close> only.
\<close>

theorem constructor_without_command_sources_is_silent:
  "effects (new_ShellExecReactorPlugin new_proxy_ok ''shellExec1'' ''reactor1''
      (ex_config None (Some 0) None None)) = []
   \<and> plugin (new_ShellExecReactorPlugin new_proxy_ok ''shellExec1'' ''reactor1''
      (ex_config None (Some 0) None None)) = ex_plugin None None
   \<and> submitted (react mustache_render accept_all (ex_plugin None None) ex_event) = [[]]
   \<and> promise_outcome (react mustache_render accept_all (ex_plugin None None) ex_event)
       = Some (Fulfilled (executed_ok (ex_plugin None None) ex_event))
   \<and> log_severities (react mustache_render accept_all (ex_plugin None None) ex_event) = [''info'']"
  by (simp add: react_defs ex_defs ctor_defs executed_ok_def)

text \<open>
  C7.  Claim: for every accepted configuration, with templates, a generator or both,
  the initialized callback is invoked exactly once with the plugin id.

  The call of \<open>_initializedCallback\<close> sits inside the \<open>commandTemplates\<close> branch.  A
  configuration with an executor instance and a generator only never gets the callback;
  the same configuration with a template gets it once.
\<close>

theorem constructor_generator_only_never_initialized:
  "initialized_calls (effects (new_ShellExecReactorPlugin new_proxy_ok ''shellExec1'' ''reactor1''
      (ex_config None (Some 0) (Some gen_AB) None))) = []
   \<and> initialized_calls (effects (new_ShellExecReactorPlugin new_proxy_ok ''shellExec1'' ''reactor1''
      (ex_config None (Some 0) (Some gen_AB) (Some [''ls''])))) = [''shellExec1'']"
  by (simp add: ex_defs ctor_defs getId_def)

text \<open>
  C8.  No error of the constructor leaves it as a throw.  With a \<open>config\<close>, a new
  executor is constructed and bound (and when that construction throws, the error goes
  to the log and the error callback and the executor stays unbound); with an
  \<open>instance\<close> and no \<open>config\<close>, that instance is bound and no error is reported; with
  neither, the owner sees exactly one log call of severity \<open>error\<close> and one call of the
  error callback with the error thrown, and the executor stays unbound.  The pre-tests
  run from \<open>fs.stat\<close> callbacks after the constructor has returned and are not part of
  this statement.
\<close>

theorem constructor_binds_executor:
  "escaped (new_ShellExecReactorPlugin new_proxy pid rid cfg) = None
   \<and> self_statefulProcessCommandProxy (plugin (new_ShellExecReactorPlugin new_proxy pid rid
        (cfg\<lparr>statefulProcessCommandProxy := Some \<lparr>proxy_config = Some c, proxy_instance = i\<rparr>\<rparr>)))
       = (case new_proxy c of Inr p \<Rightarrow> Some p | Inl e \<Rightarrow> None)
   \<and> error_callbacks (effects (new_ShellExecReactorPlugin new_proxy pid rid
        (cfg\<lparr>statefulProcessCommandProxy := Some \<lparr>proxy_config = Some c, proxy_instance = i\<rparr>\<rparr>)))
       = (case new_proxy c of
            Inr p \<Rightarrow> []
          | Inl e \<Rightarrow> [(class_name @ ''['' @ rid @ '']['' @ pid @ '']''
                         @ '' error constructing StatefulProcessCommandProxy: '' @ error_toString e, e)])
   \<and> self_statefulProcessCommandProxy (plugin (new_ShellExecReactorPlugin new_proxy pid rid
        (cfg\<lparr>statefulProcessCommandProxy := Some \<lparr>proxy_config = None, proxy_instance = Some j\<rparr>\<rparr>)))
       = Some j
   \<and> error_callbacks (effects (new_ShellExecReactorPlugin new_proxy pid rid
        (cfg\<lparr>statefulProcessCommandProxy := Some \<lparr>proxy_config = None, proxy_instance = Some j\<rparr>\<rparr>)))
       = []
   \<and> effects (new_ShellExecReactorPlugin new_proxy pid rid
        (cfg\<lparr>statefulProcessCommandProxy := Some \<lparr>proxy_config = None, proxy_instance = None\<rparr>\<rparr>))
       = [LogCall ''error'' (class_name @ ''['' @ rid @ '']['' @ pid @ '']'')
            (class_name @ ''['' @ rid @ '']['' @ pid @ '']'' @ '' unexpected error: ''
               @ error_toString missing_proxy_error),
          ErrorCallback
            (class_name @ ''['' @ rid @ '']['' @ pid @ '']'' @ '' unexpected error: ''
               @ error_toString missing_proxy_error) missing_proxy_error]
   \<and> self_statefulProcessCommandProxy (plugin (new_ShellExecReactorPlugin new_proxy pid rid
        (cfg\<lparr>statefulProcessCommandProxy := Some \<lparr>proxy_config = None, proxy_instance = None\<rparr>\<rparr>)))
       = None"
  by (auto simp: new_ShellExecReactorPlugin_def bind_executor_def handle_commandGenerator_def
        handle_commandTemplates_def log_and_report_def error_callbacks_def log_origin_def getId_def
        Let_def split: option.splits sum.splits prod.splits)
section \<open>The empty batch (C9)\<close>


end
